theory Spec2Isabelle
  imports Main "HOL-Library.Word" "HOL-Library.Sublist"
begin

section \<open>PsfLauncher: data model\<close>

text \<open>
  A shallow embedding of \<^verbatim>\<open>src/PsfLauncher/main.cpp\<close>. Wide strings are character
  lists, \<^verbatim>\<open>DWORD\<close> and \<^verbatim>\<open>LSTATUS\<close> are 32-bit words, a nullable \<^verbatim>\<open>LPCWSTR\<close> is an
  optional string. Every call into the operating system is answered by a field of the
  record \<open>os\<close> and, when it has an effect, leaves an event in a trace; the functions
  of the launcher take the trace so far and return it extended.
\<close>

type_synonym DWORD = "32 word"

definition ERROR_SUCCESS :: DWORD where "ERROR_SUCCESS = 0"
definition ERROR_FILE_NOT_FOUND :: DWORD where "ERROR_FILE_NOT_FOUND = 2"
definition ERROR_NOT_FOUND :: DWORD where "ERROR_NOT_FOUND = 1168"
definition WAIT_OBJECT_0 :: DWORD where "WAIT_OBJECT_0 = 0"
definition E_APPLICATION_NOT_REGISTERED :: DWORD where
  "E_APPLICATION_NOT_REGISTERED = 0x80270254"

subsection \<open>ErrorInformation\<close>

text \<open>
  Modelled from the spec: the class \<^verbatim>\<open>ErrorInformation\<close> is declared in
  \<^verbatim>\<open>ErrorInformation.h\<close>, which is not among the sources. The spec describes a launch
  outcome as either success or an error record with a message, a numeric code and an
  optional executable tag that is attached after construction. The record below keeps
  the success flag beside the three fields; \<open>NoError\<close> is the value-initialised object
  (\<^verbatim>\<open>return {}\<close>), \<open>Error\<close> and \<open>ErrorExe\<close> are the two constructors the launcher
  calls, and \<open>AddExeName\<close> only sets the tag.
\<close>

record ErrorInformation =
  isThereAnError :: bool
  errorMessage :: string
  errorNumber :: DWORD
  errorExeName :: string

definition NoError :: ErrorInformation where
  "NoError = \<lparr>isThereAnError = False, errorMessage = [], errorNumber = ERROR_SUCCESS,
     errorExeName = []\<rparr>"

definition Error :: "string \<Rightarrow> DWORD \<Rightarrow> ErrorInformation" where
  "Error msg num = \<lparr>isThereAnError = True, errorMessage = msg, errorNumber = num,
     errorExeName = []\<rparr>"

definition ErrorExe :: "string \<Rightarrow> DWORD \<Rightarrow> string \<Rightarrow> ErrorInformation" where
  "ErrorExe msg num exe = \<lparr>isThereAnError = True, errorMessage = msg, errorNumber = num,
     errorExeName = exe\<rparr>"

definition IsThereAnError :: "ErrorInformation \<Rightarrow> bool" where
  "IsThereAnError e = isThereAnError e"

definition GetErrorNumber :: "ErrorInformation \<Rightarrow> DWORD" where
  "GetErrorNumber e = errorNumber e"

definition AddExeName :: "ErrorInformation \<Rightarrow> string \<Rightarrow> ErrorInformation" where
  "AddExeName e exe = e\<lparr>errorExeName := exe\<rparr>"

section \<open>CheckIfPowershellIsInstalled\<close>

text \<open>
  The registry as the probe sees it: the status \<^verbatim>\<open>RegCreateKeyExW\<close> returns for
  \<^verbatim>\<open>HKLM\SOFTWARE\Microsoft\PowerShell\1\<close>, and the status \<^verbatim>\<open>RegQueryValueExW\<close>
  returns for the value \<^verbatim>\<open>Install\<close> together with the content of
  \<^verbatim>\<open>valueFromRegistry\<close> after the call. A value that does not exist is a query that
  does not return \<^verbatim>\<open>ERROR_SUCCESS\<close> (Windows answers \<^verbatim>\<open>ERROR_FILE_NOT_FOUND\<close>).
\<close>

record registry =
  RegCreateKeyExW :: DWORD
  RegQueryValueExW :: "DWORD \<times> DWORD"

text \<open>
  The source returns the error and writes the boolean through a reference; the model
  takes the boolean's value before the call and returns the pair.
\<close>

definition CheckIfPowershellIsInstalled :: "registry \<Rightarrow> bool \<Rightarrow> ErrorInformation \<times> bool" where
  "CheckIfPowershellIsInstalled reg isPowershellInstalled =
     (let createResult = RegCreateKeyExW reg in
      if createResult \<noteq> ERROR_SUCCESS
      then (Error ''Error with getting the key to see if PowerShell is installed. '' createResult,
            isPowershellInstalled)
      else
        let (getResult, valueFromRegistry) = RegQueryValueExW reg in
        if getResult \<noteq> ERROR_SUCCESS
        then (Error ''Error with querying the key to see if PowerShell is installed. '' getResult,
              isPowershellInstalled)
        else if valueFromRegistry = 1 then (NoError, True) else (NoError, False))"

section \<open>Strings\<close>

text \<open>
  Modelled from the spec: \<^verbatim>\<open>iwstring_view\<close> and the literal suffix \<^verbatim>\<open>_isv\<close> come from
  the framework's headers, which are not among the sources. The spec asks for a
  case-insensitive comparison; \<open>iwstring_eq\<close> holds of two views whose characters
  agree after folding \<^verbatim>\<open>A\<close>..\<^verbatim>\<open>Z\<close> to lower case. Characters are the 8-bit ones;
  wide characters beyond them are outside the model.
\<close>

definition towlower :: "char \<Rightarrow> char" where
  "towlower c =
     (case map_of (zip ''ABCDEFGHIJKLMNOPQRSTUVWXYZ'' ''abcdefghijklmnopqrstuvwxyz'') c of
        Some l \<Rightarrow> l
      | None \<Rightarrow> c)"

definition iwstring_eq :: "string \<Rightarrow> string \<Rightarrow> bool" where
  "iwstring_eq a b = (map towlower a = map towlower b)"

definition check_suffix_if :: "string \<Rightarrow> string \<Rightarrow> bool" where
  "check_suffix_if str suffix_isv =
     (if length str \<ge> length suffix_isv \<and>
         iwstring_eq (drop (length str - length suffix_isv) str) suffix_isv
      then True else False)"

text \<open>
  \<^verbatim>\<open>std::wstring::find\<close> and \<^verbatim>\<open>substr\<close> with \<^verbatim>\<open>size_t\<close> of 64 bits: \<open>wfind\<close>
  (the string's \<^verbatim>\<open>find\<close>) answers \<open>npos\<close> when the character does not occur at
  or after the position, the subtraction of \<^verbatim>\<open>size_t\<close> values wraps, and \<open>substr\<close> clips the count to the
  characters left. Both calls of \<open>substr\<close> in \<open>StartProcess\<close> start inside the string
  (at 0, and at 1 of a string whose first character was just read), so its
  \<^verbatim>\<open>out_of_range\<close> exception has no branch here.
\<close>

definition npos :: nat where
  "npos = 2 ^ 64 - 1"

primrec index_of :: "char \<Rightarrow> string \<Rightarrow> nat option" where
  "index_of c [] = None"
| "index_of c (x # xs) = (if x = c then Some 0 else map_option Suc (index_of c xs))"

definition wfind :: "string \<Rightarrow> char \<Rightarrow> nat \<Rightarrow> nat" where
  "wfind s c pos = (case index_of c (drop pos s) of None \<Rightarrow> npos | Some i \<Rightarrow> pos + i)"

definition size_t_minus :: "nat \<Rightarrow> nat \<Rightarrow> nat" where
  "size_t_minus a b = (a + 2 ^ 64 - b) mod 2 ^ 64"

definition substr :: "string \<Rightarrow> nat \<Rightarrow> nat \<Rightarrow> string" where
  "substr s pos count = take (min count (length s - pos)) (drop pos s)"

section \<open>The operating system and the trace\<close>

record ExecutionInformation =
  ApplicationName :: "string option"
  CommandLine :: string
  CurrentDirectory :: "string option"

text \<open>
  What a non-null pointer to a wide string points at when it is used: a string that
  is still alive, or the buffer of a temporary that has been destroyed since the
  pointer was taken. What is read through the second kind is not determined by the
  program. The null pointer is \<open>None\<close>.
\<close>

datatype pointee = LiveString string | DestroyedTemporary

record SHELLEXECUTEINFO =
  fMask :: DWORD
  lpVerb :: "string option"
  lpFile :: string
  lpParameters :: string
  lpDirectory :: "pointee option"
  nShow :: int

definition SEE_MASK_NOCLOSEPROCESS :: DWORD where "SEE_MASK_NOCLOSEPROCESS = 0x40"
definition SEE_MASK_WAITFORINPUTIDLE :: DWORD where "SEE_MASK_WAITFORINPUTIDLE = 0x02000000"

datatype process_policy = PROCESS_CREATION_DESKTOP_APP_BREAKAWAY_DISABLE_PROCESS_TREE

text \<open>
  What reaches \<^verbatim>\<open>PSFReportError\<close>: the \<^verbatim>\<open>Print()\<close> of an error object (the method is
  declared in the missing header, so the object stands for its text), a literal, or
  the message of the exception caught at the end of \<open>launcher_main\<close>.
\<close>

datatype report = Printed ErrorInformation | Message string | CaughtException string

text \<open>
  The observable calls. \<open>EvCreateProcess\<close> records the execution information, the
  \<^verbatim>\<open>wShowWindow\<close> of the startup descriptor and whether \<^verbatim>\<open>lpAttributeList\<close> was set.
\<close>

datatype event =
    EvExists string
  | EvInitializeProcThreadAttributeList
  | EvUpdateProcThreadAttribute process_policy
  | EvCreateProcess ExecutionInformation "16 word" bool
  | EvWaitForSingleObject
  | EvShellExecuteEx SHELLEXECUTEINFO
  | EvWaitForInputIdle nat
  | EvSleep nat
  | EvCoInitializeEx
  | EvReportError report

text \<open>
  \<^verbatim>\<open>CreateProcessW\<close> either fails with a last error, or creates the child, and then the
  wait returns a result and leaves a last error.
\<close>

datatype create_result = CreateFailed DWORD | Created DWORD DWORD

text \<open>
  The answers of the system may depend on everything that happened before, so each
  of them is a function of the trace so far. \<open>os_ShellExecuteEx\<close> answers \<open>None\<close> for
  \<^verbatim>\<open>TRUE\<close> and the last error otherwise. \<^verbatim>\<open>std::filesystem::path\<close>'s \<^verbatim>\<open>operator/\<close> and
  \<^verbatim>\<open>filename()\<close> are library functions taken as they come.
\<close>

record os =
  os_registry :: registry
  os_exists :: "event list \<Rightarrow> string \<Rightarrow> bool"
  os_CreateProcessW :: "event list \<Rightarrow> ExecutionInformation \<Rightarrow> create_result"
  os_ShellExecuteEx :: "event list \<Rightarrow> SHELLEXECUTEINFO \<Rightarrow> DWORD option"
  path_append :: "string \<Rightarrow> string \<Rightarrow> string"
  path_filename :: "string \<Rightarrow> string"

section \<open>The configuration\<close>

text \<open>
  The JSON objects of the configuration, with the fields the launcher reads and the
  type it reads them at: \<^verbatim>\<open>get\<close> gives a field that must be there, \<^verbatim>\<open>try_get\<close> an
  optional one. \<^verbatim>\<open>runInVirtualEnvironment\<close> is read with \<^verbatim>\<open>as_string()\<close>, so it is a
  string here; the monitor's \<^verbatim>\<open>asadmin\<close> and \<^verbatim>\<open>wait\<close> are read with \<^verbatim>\<open>as_boolean()\<close>.
  What the accessors do with a value of another JSON type is decided in the
  framework's headers, outside the sources, and is not modelled.
\<close>

record script_info =
  json_scriptPath :: string
  json_scriptArguments :: "string option"
  json_runInVirtualEnvironment :: "string option"

record monitor_info =
  mon_executable :: string
  mon_arguments :: string
  mon_asadmin :: "bool option"
  mon_wait :: "bool option"

record app_config =
  app_executable :: string
  app_arguments :: "string option"
  app_workingDirectory :: "string option"

record psf_config =
  PSFQueryCurrentAppLaunchConfig :: "app_config option"
  PSFQueryPackageRootPath :: string
  PSFQueryStartScriptInfo :: "script_info option"
  PSFQueryAppMonitorConfig :: "monitor_info option"
  PSFQueryEndScriptInfo :: "script_info option"

section \<open>StartProcess\<close>

text \<open>
  Lines 298-405. The two attribute calls that fail only build a local error object
  that is dropped, so their results do not enter the model; the calls are traced.
\<close>

definition StartProcess ::
  "os \<Rightarrow> ExecutionInformation \<Rightarrow> int \<Rightarrow> bool \<Rightarrow> event list \<Rightarrow> ErrorInformation \<times> event list" where
  "StartProcess os execInfo cmdShow runInVirtualEnvironment tr =
     (let tr1 = (if runInVirtualEnvironment
                 then tr @ [EvInitializeProcThreadAttributeList,
                            EvInitializeProcThreadAttributeList,
                            EvUpdateProcThreadAttribute
                              PROCESS_CREATION_DESKTOP_APP_BREAKAWAY_DISABLE_PROCESS_TREE]
                 else tr);
          tr2 = tr1 @ [EvCreateProcess execInfo (word_of_int cmdShow) runInVirtualEnvironment]
      in case os_CreateProcessW os tr1 execInfo of
           Created waitResult err \<Rightarrow>
             (if waitResult = WAIT_OBJECT_0 then NoError
              else Error ''Running process failed.'' err,
              tr2 @ [EvWaitForSingleObject])
         | CreateFailed err \<Rightarrow>
             (case ApplicationName execInfo of
                Some name \<Rightarrow>
                  (Error (''ERROR: Failed to create a process for '' @ name @ '' '') err, tr2)
              | None \<Rightarrow>
                  let applicationNameForError =
                        (if (case CommandLine execInfo of [] \<Rightarrow> False | c # _ \<Rightarrow> c = CHR 0x22)
                         then substr (CommandLine execInfo) 1
                                (size_t_minus (wfind (CommandLine execInfo) (CHR 0x22) 1) 1)
                         else substr (CommandLine execInfo) 0
                                (wfind (CommandLine execInfo) (CHR '' '') 0))
                  in (Error (''ERROR: Failed to create a process for ''
                               @ applicationNameForError @ '' '') err, tr2)))"

section \<open>RunScript\<close>

text \<open>
  Lines 171-214. The assignment of the wide string pointer to the boolean
  \<^verbatim>\<open>runInVirtualEnvironment\<close> is a pointer-to-bool conversion: true for every string.
\<close>

definition RunScript ::
  "os \<Rightarrow> script_info \<Rightarrow> string \<Rightarrow> string \<Rightarrow> int \<Rightarrow> event list \<Rightarrow> ErrorInformation \<times> event list" where
  "RunScript os scriptInformation packageRoot dirStr cmdShow tr =
     (let scriptPath = json_scriptPath scriptInformation;
          powershellCommandString = ''Powershell.exe -file '' @ scriptPath @ '' '';
          powershellCommandString =
            (case json_scriptArguments scriptInformation of
               Some a \<Rightarrow> powershellCommandString @ a
             | None \<Rightarrow> powershellCommandString);
          currentDirectory = path_append os packageRoot dirStr;
          powershellScriptPath = scriptPath;
          doesFileExist = os_exists os tr (path_append os currentDirectory powershellScriptPath);
          tr1 = tr @ [EvExists (path_append os currentDirectory powershellScriptPath)]
      in if doesFileExist
         then
           let runInVirtualEnvironment =
                 (case json_runInVirtualEnvironment scriptInformation of
                    Some s \<Rightarrow> True
                  | None \<Rightarrow> False);
               execInfo = \<lparr>ApplicationName = None, CommandLine = powershellCommandString,
                           CurrentDirectory = Some currentDirectory\<rparr>
           in StartProcess os execInfo cmdShow runInVirtualEnvironment tr1
         else
           (Error (''The PowerShell file '' @ path_append os currentDirectory powershellScriptPath
                     @ '' can'' @ [CHR 0x27] @ ''t be found'')
              ERROR_FILE_NOT_FOUND, tr1))"

section \<open>The monitor\<close>

text \<open>
  Lines 240-296. In the elevated branch the error object built when
  \<^verbatim>\<open>ShellExecuteEx\<close> fails is a local of the \<^verbatim>\<open>else\<close> block; control then reaches
  \<^verbatim>\<open>return {}\<close>.
\<close>

definition LaunchMonitorInBackground ::
  "os \<Rightarrow> string \<Rightarrow> string \<Rightarrow> string \<Rightarrow> bool \<Rightarrow> bool \<Rightarrow> int \<Rightarrow> string \<Rightarrow> event list
     \<Rightarrow> ErrorInformation \<times> event list" where
  "LaunchMonitorInBackground os packageRoot executable arguments wait asAdmin cmdShow dirStr tr =
     (let cmd = [CHR 0x22] @ path_append os packageRoot executable @ [CHR 0x22]
      in if asAdmin
         then
           let shExInfo = \<lparr>fMask = (if wait then SEE_MASK_NOCLOSEPROCESS
                                     else or SEE_MASK_NOCLOSEPROCESS SEE_MASK_WAITFORINPUTIDLE),
                           lpVerb = Some ''runas'', lpFile = cmd, lpParameters = arguments,
                           lpDirectory = None, nShow = 1\<rparr>;
               tr1 = tr @ [EvShellExecuteEx shExInfo]
           in case os_ShellExecuteEx os tr shExInfo of
                None \<Rightarrow>
                  (NoError,
                   if wait then tr1 @ [EvWaitForSingleObject]
                   else tr1 @ [EvWaitForInputIdle 1000, EvSleep 5000])
              | Some err \<Rightarrow>
                  let error = ErrorExe ''error starting monitor using ShellExecuteEx'' err executable
                  in (NoError, tr1)
         else
           let execInfo = \<lparr>ApplicationName = Some executable,
                           CommandLine = cmd @ '' '' @ arguments,
                           CurrentDirectory = Some (path_append os packageRoot dirStr)\<rparr>;
               (error, tr1) = StartProcess os execInfo cmdShow False tr
           in (AddExeName error executable, tr1))"

text \<open>Lines 216-238.\<close>

definition GetAndLaunchMonitor ::
  "os \<Rightarrow> monitor_info \<Rightarrow> string \<Rightarrow> int \<Rightarrow> string \<Rightarrow> event list \<Rightarrow> ErrorInformation \<times> event list" where
  "GetAndLaunchMonitor os monitor packageRoot cmdShow dirStr tr =
     (let asAdmin = (case mon_asadmin monitor of Some b \<Rightarrow> b | None \<Rightarrow> False);
          wait = (case mon_wait monitor of Some b \<Rightarrow> b | None \<Rightarrow> False)
      in LaunchMonitorInBackground os packageRoot (mon_executable monitor)
           (mon_arguments monitor) wait asAdmin cmdShow dirStr tr)"

section \<open>StartWithShellExecute\<close>

text \<open>
  Lines 407-432; \<open>dirStr\<close> is the nullable pointer the function tests. For a non-null
  \<open>dirStr\<close> line 419 stores in \<^verbatim>\<open>lpDirectory\<close> the \<^verbatim>\<open>c_str()\<close> of the temporary path
  \<^verbatim>\<open>packageRoot / dirStr\<close>; the temporary is destroyed at the end of the declaration of
  \<^verbatim>\<open>shex\<close>, before \<^verbatim>\<open>ShellExecuteEx\<close> is called at line 425, so the call receives a
  pointer to a destroyed temporary.
\<close>

definition StartWithShellExecute ::
  "os \<Rightarrow> string \<Rightarrow> string \<Rightarrow> string \<Rightarrow> string option \<Rightarrow> int \<Rightarrow> event list
     \<Rightarrow> ErrorInformation \<times> event list" where
  "StartWithShellExecute os packageRoot exeName exeArgString dirStr cmdShow tr =
     (let nonExePath = path_append os packageRoot exeName;
          shex = \<lparr>fMask = SEE_MASK_NOCLOSEPROCESS, lpVerb = None, lpFile = nonExePath,
                  lpParameters = exeArgString,
                  lpDirectory = (case dirStr of Some d \<Rightarrow> Some DestroyedTemporary
                                 | None \<Rightarrow> None),
                  nShow = uint (word_of_int cmdShow :: 16 word)\<rparr>;
          tr1 = tr @ [EvShellExecuteEx shex]
      in case os_ShellExecuteEx os tr shex of
           Some err \<Rightarrow> (Error ''ERROR: Failed to create detoured shell process'' err, tr1)
         | None \<Rightarrow> (NoError, tr1))"

section \<open>launcher\_main\<close>

text \<open>
  \<open>launcher_main\<close> (lines 59-169) is one straight-line function; the model cuts it
  at its four comments into the starting script (lines 75-101), the monitor
  (lines 103-110), the application (lines 112-141) and the ending script
  (lines 143-163). A part that returns from \<open>launcher_main\<close> gives the exit code and
  the trace; a part that falls through gives the variable \<^verbatim>\<open>error\<close> and the trace.
\<close>

definition launch_start_script ::
  "os \<Rightarrow> psf_config \<Rightarrow> string \<Rightarrow> string \<Rightarrow> int \<Rightarrow> event list
     \<Rightarrow> (DWORD \<times> event list) + (ErrorInformation \<times> event list)" where
  "launch_start_script os cfg packageRoot dirStr cmdShow tr =
     (let (error, isPowershellInstalled) = CheckIfPowershellIsInstalled (os_registry os) False
      in if IsThereAnError error
         then Inl (GetErrorNumber error, tr @ [EvReportError (Printed error)])
         else
           case PSFQueryStartScriptInfo cfg of
             None \<Rightarrow> Inr (error, tr)
           | Some startScriptInformation \<Rightarrow>
               if \<not> isPowershellInstalled
               then Inl (E_APPLICATION_NOT_REGISTERED,
                         tr @ [EvReportError (Message
                           ''PowerShell is not installed.  Please install PowerShell to run scripts in PSF'')])
               else
                 let (error, tr1) = RunScript os startScriptInformation packageRoot dirStr cmdShow tr
                 in if IsThereAnError error
                    then Inl (GetErrorNumber error, tr1 @ [EvReportError (Printed error)])
                    else Inr (error, tr1))"

definition launch_monitor ::
  "os \<Rightarrow> psf_config \<Rightarrow> string \<Rightarrow> string \<Rightarrow> int \<Rightarrow> ErrorInformation \<Rightarrow> event list
     \<Rightarrow> ErrorInformation \<times> event list" where
  "launch_monitor os cfg packageRoot dirStr cmdShow error tr =
     (case PSFQueryAppMonitorConfig cfg of
        None \<Rightarrow> (error, tr)
      | Some monitor \<Rightarrow>
          GetAndLaunchMonitor os monitor packageRoot cmdShow dirStr (tr @ [EvCoInitializeEx]))"

definition launch_app ::
  "os \<Rightarrow> app_config \<Rightarrow> string \<Rightarrow> string \<Rightarrow> string \<Rightarrow> int \<Rightarrow> ErrorInformation \<Rightarrow> event list
     \<Rightarrow> ErrorInformation \<times> event list" where
  "launch_app os appConfig packageRoot dirStr args cmdShow error tr =
     (if \<not> IsThereAnError error
      then
        let exeName = app_executable appConfig;
            exePath = path_append os packageRoot exeName;
            exeArgString = (case app_arguments appConfig of Some a \<Rightarrow> a | None \<Rightarrow> []);
            cmdLine = [CHR 0x22] @ path_filename os exePath @ [CHR 0x22] @ '' ''
                        @ exeArgString @ '' '' @ args
        in if check_suffix_if exeName ''.exe''
           then
             let execInfo = \<lparr>ApplicationName = Some exePath, CommandLine = cmdLine,
                             CurrentDirectory = Some (path_append os packageRoot dirStr)\<rparr>;
                 (error, tr1) = StartProcess os execInfo cmdShow False tr
             in (AddExeName error exeName, tr1)
           else StartWithShellExecute os packageRoot exeName exeArgString (Some dirStr) cmdShow tr
      else (error, tr))"

definition launch_end_script ::
  "os \<Rightarrow> psf_config \<Rightarrow> string \<Rightarrow> string \<Rightarrow> int \<Rightarrow> ErrorInformation \<Rightarrow> event list
     \<Rightarrow> DWORD \<times> event list" where
  "launch_end_script os cfg packageRoot dirStr cmdShow error tr =
     (case PSFQueryEndScriptInfo cfg of
        None \<Rightarrow> (0, tr)
      | Some endScriptInformation \<Rightarrow>
          let (endingScriptError, tr1) =
                RunScript os endScriptInformation packageRoot dirStr cmdShow tr;
              error = AddExeName error ''PowerShell.exe''
          in if IsThereAnError error
             then (GetErrorNumber error, tr1 @ [EvReportError (Printed error)])
             else if IsThereAnError endingScriptError
             then (GetErrorNumber endingScriptError,
                   tr1 @ [EvReportError (Printed endingScriptError)])
             else (0, tr1))"

text \<open>
  Modelled from the spec: \<^verbatim>\<open>throw_win32\<close>, \<^verbatim>\<open>message_from_caught_exception\<close> and
  \<^verbatim>\<open>win32_from_caught_exception\<close> are not among the sources. The spec has a missing
  launch entry fail and be reported through the host reporter; here the exception
  thrown for it is caught at the end of \<open>launcher_main\<close>, its message reported and
  its code returned.
\<close>

definition launcher_main :: "os \<Rightarrow> psf_config \<Rightarrow> string \<Rightarrow> int \<Rightarrow> DWORD \<times> event list" where
  "launcher_main os cfg args cmdShow =
     (case PSFQueryCurrentAppLaunchConfig cfg of
        None \<Rightarrow>
          (ERROR_NOT_FOUND,
           [EvReportError (CaughtException
              ''Error: could not find matching appid in config.json and appx manifest'')])
      | Some appConfig \<Rightarrow>
          let dirStr = (case app_workingDirectory appConfig of Some d \<Rightarrow> d | None \<Rightarrow> []);
              packageRoot = PSFQueryPackageRootPath cfg
          in (case launch_start_script os cfg packageRoot dirStr cmdShow [] of
                Inl exit \<Rightarrow> exit
              | Inr (error, tr) \<Rightarrow>
                  let (error, tr) = launch_monitor os cfg packageRoot dirStr cmdShow error tr;
                      (error, tr) = launch_app os appConfig packageRoot dirStr args cmdShow error tr
                  in launch_end_script os cfg packageRoot dirStr cmdShow error tr))"

section \<open>Notions used by the properties\<close>

text \<open>
  The program name as the spec words it for the message of a failed launch: if the
  command line starts with a double quote, the substring between the first pair of
  quotes; otherwise the substring up to the first space.
\<close>

definition spec_program_name :: "string \<Rightarrow> string" where
  "spec_program_name commandLine =
     (case commandLine of
        [] \<Rightarrow> []
      | c # rest \<Rightarrow>
          if c = CHR 0x22 then takeWhile (\<lambda>x. x \<noteq> CHR 0x22) rest
          else takeWhile (\<lambda>x. x \<noteq> CHR '' '') commandLine)"

fun is_report :: "event \<Rightarrow> bool" where
  "is_report (EvReportError r) = True"
| "is_report e = False"

fun is_create_process :: "event \<Rightarrow> bool" where
  "is_create_process (EvCreateProcess execInfo w a) = True"
| "is_create_process e = False"

section \<open>A concrete host and the spec's scenarios\<close>

text \<open>
  The scenarios of the spec use the package root \<^verbatim>\<open>/pkg\<close> and paths joined with a
  slash. \<open>ex_os\<close> is a host whose registry key opens and holds the given install
  marker, and whose files, process creation and shell activation answer as given,
  whatever happened before.
\<close>

definition ex_append :: "string \<Rightarrow> string \<Rightarrow> string" where
  "ex_append a b = (if a = [] \<or> last a = CHR ''/'' then a @ b else a @ ''/'' @ b)"

definition ex_filename :: "string \<Rightarrow> string" where
  "ex_filename p = rev (takeWhile (\<lambda>c. c \<noteq> CHR ''/'') (rev p))"

definition ex_os ::
  "DWORD \<Rightarrow> (string \<Rightarrow> bool) \<Rightarrow> (ExecutionInformation \<Rightarrow> create_result)
     \<Rightarrow> (SHELLEXECUTEINFO \<Rightarrow> DWORD option) \<Rightarrow> os" where
  "ex_os install files create shell =
     \<lparr>os_registry = \<lparr>RegCreateKeyExW = 0, RegQueryValueExW = (0, install)\<rparr>,
      os_exists = (\<lambda>tr. files), os_CreateProcessW = (\<lambda>tr. create),
      os_ShellExecuteEx = (\<lambda>tr. shell), path_append = ex_append,
      path_filename = ex_filename\<rparr>"

definition ex_script :: "string option \<Rightarrow> script_info" where
  "ex_script venv = \<lparr>json_scriptPath = ''go.ps1'', json_scriptArguments = None,
     json_runInVirtualEnvironment = venv\<rparr>"

definition ex_app :: "string \<Rightarrow> app_config" where
  "ex_app exe = \<lparr>app_executable = exe, app_arguments = Some ''--mode=fast'',
     app_workingDirectory = None\<rparr>"

definition ex_monitor :: monitor_info where
  "ex_monitor = \<lparr>mon_executable = ''m.exe'', mon_arguments = ''-x'',
     mon_asadmin = Some True, mon_wait = Some True\<rparr>"

definition ex_cfg ::
  "string \<Rightarrow> script_info option \<Rightarrow> monitor_info option \<Rightarrow> script_info option \<Rightarrow> psf_config" where
  "ex_cfg exe startScript monitor endScript =
     \<lparr>PSFQueryCurrentAppLaunchConfig = Some (ex_app exe),
      PSFQueryPackageRootPath = ''/pkg'',
      PSFQueryStartScriptInfo = startScript,
      PSFQueryAppMonitorConfig = monitor,
      PSFQueryEndScriptInfo = endScript\<rparr>"

text \<open>Process creation that refuses the application with error 5 and runs all else.\<close>

definition ex_app_fails :: "ExecutionInformation \<Rightarrow> create_result" where
  "ex_app_fails execInfo =
     (if ApplicationName execInfo = Some ''/pkg/app.exe'' then CreateFailed 5 else Created 0 0)"

text \<open>Shell activation that refuses the elevation verb with error 1223 (cancelled).\<close>

definition ex_runas_refused :: "SHELLEXECUTEINFO \<Rightarrow> DWORD option" where
  "ex_runas_refused shex = (if lpVerb shex = Some ''runas'' then Some 1223 else None)"

definition ex_app_event :: event where
  "ex_app_event =
     EvCreateProcess
       \<lparr>ApplicationName = Some ''/pkg/app.exe'',
        CommandLine = [CHR 0x22] @ ''app.exe'' @ [CHR 0x22] @ '' --mode=fast extra'',
        CurrentDirectory = Some ''/pkg/''\<rparr> 1 False"

definition ex_script_event :: "bool \<Rightarrow> event" where
  "ex_script_event attr =
     EvCreateProcess
       \<lparr>ApplicationName = None, CommandLine = ''Powershell.exe -file go.ps1 '',
        CurrentDirectory = Some ''/pkg/''\<rparr> 1 attr"

definition ex_app_error :: ErrorInformation where
  "ex_app_error =
     \<lparr>isThereAnError = True,
      errorMessage = ''ERROR: Failed to create a process for /pkg/app.exe '',
      errorNumber = 5, errorExeName = ''app.exe''\<rparr>"

definition ex_monitor_event :: event where
  "ex_monitor_event =
     EvShellExecuteEx
       \<lparr>fMask = SEE_MASK_NOCLOSEPROCESS, lpVerb = Some ''runas'',
        lpFile = [CHR 0x22] @ ''/pkg/m.exe'' @ [CHR 0x22], lpParameters = ''-x'',
        lpDirectory = None, nShow = 1\<rparr>"





section \<open>Helper lemmas\<close>

subsection \<open>Strings\<close>

lemma index_of_takeWhile:
  "index_of c s = (if c \<in> set s then Some (length (takeWhile (\<lambda>x. x \<noteq> c) s)) else None)"
  by (induction s) auto

lemma take_length_takeWhile: "take (length (takeWhile P s)) s = takeWhile P s"
  by (induction s) auto

lemma takeWhile_absent: "c \<notin> set s \<Longrightarrow> takeWhile (\<lambda>x. x \<noteq> c) s = s"
  by (induction s) auto

lemma substr_first_token:
  assumes "length s < npos"
  shows "substr s 0 (wfind s c 0) = takeWhile (\<lambda>x. x \<noteq> c) s"
proof (cases "c \<in> set s")
  case True
  have "length (takeWhile (\<lambda>x. x \<noteq> c) s) \<le> length s" by (rule length_takeWhile_le)
  then show ?thesis using True
    by (simp add: substr_def wfind_def index_of_takeWhile min_absorb1 take_length_takeWhile)
next
  case False
  have "substr s 0 (wfind s c 0) = s" using False assms
    by (simp add: substr_def wfind_def index_of_takeWhile)
  then show ?thesis by (simp only: takeWhile_absent[OF False])
qed

lemma substr_quoted:
  assumes "length (q # r) < npos"
  shows "substr (q # r) 1 (size_t_minus (wfind (q # r) c 1) 1) = takeWhile (\<lambda>x. x \<noteq> c) r"
proof (cases "c \<in> set r")
  case True
  let ?n = "length (takeWhile (\<lambda>x. x \<noteq> c) r)"
  have le: "?n \<le> length r" by (rule length_takeWhile_le)
  have "length r < 2 ^ 64" using assms by (simp add: npos_def)
  with le have "(Suc ?n + 2 ^ 64 - 1) mod 2 ^ 64 = ?n" by simp
  then show ?thesis using True le
    by (simp add: substr_def wfind_def index_of_takeWhile size_t_minus_def min_absorb1
        take_length_takeWhile)
next
  case False
  have "length r \<le> 2 ^ 64 - 2" using assms by (simp add: npos_def)
  moreover have "((2::nat) ^ 64 - 1 + 2 ^ 64 - 1) mod 2 ^ 64 = 2 ^ 64 - 2" by simp
  ultimately have "substr (q # r) 1 (size_t_minus (wfind (q # r) c 1) 1) = r" using False
    by (simp add: substr_def wfind_def index_of_takeWhile size_t_minus_def npos_def)
  then show ?thesis by (simp only: takeWhile_absent[OF False])
qed

lemma suffix_drop_conv:
  "suffix xs ys \<longleftrightarrow> length xs \<le> length ys \<and> drop (length ys - length xs) ys = xs"
proof
  assume "suffix xs ys"
  then obtain zs where "ys = zs @ xs" by (auto simp: suffix_def)
  then show "length xs \<le> length ys \<and> drop (length ys - length xs) ys = xs" by simp
next
  assume a: "length xs \<le> length ys \<and> drop (length ys - length xs) ys = xs"
  have "ys = take (length ys - length xs) ys @ drop (length ys - length xs) ys" by simp
  with a have "ys = take (length ys - length xs) ys @ xs" by simp
  then show "suffix xs ys" by (rule suffixI)
qed

lemma check_suffix_if_suffix:
  "check_suffix_if str suf \<longleftrightarrow> suffix (map towlower suf) (map towlower str)"
  by (simp add: check_suffix_if_def iwstring_eq_def suffix_drop_conv drop_map)

lemma towlower_exe: "map towlower ''.exe'' = ''.exe''"
  by (simp add: towlower_def)

subsection \<open>No stage reports\<close>

lemma StartProcess_reports:
  "filter is_report (snd (StartProcess os execInfo cmdShow venv tr)) = filter is_report tr"
  by (simp add: StartProcess_def Let_def split: create_result.splits option.splits)

lemma RunScript_reports:
  "filter is_report (snd (RunScript os s packageRoot dirStr cmdShow tr)) = filter is_report tr"
  by (simp add: RunScript_def Let_def StartProcess_reports)

lemma RunScript_reports_result:
  "RunScript os s packageRoot dirStr cmdShow tr = (e, tr')
     \<Longrightarrow> filter is_report tr' = filter is_report tr"
  using RunScript_reports[of os s packageRoot dirStr cmdShow tr] by simp

lemma StartWithShellExecute_reports:
  "filter is_report (snd (StartWithShellExecute os packageRoot exe a d cmdShow tr))
     = filter is_report tr"
  by (simp add: StartWithShellExecute_def Let_def split: option.splits)

lemma LaunchMonitorInBackground_reports:
  "filter is_report (snd (LaunchMonitorInBackground os packageRoot exe a w adm cmdShow d tr))
     = filter is_report tr"
  by (simp add: LaunchMonitorInBackground_def Let_def StartProcess_reports case_prod_beta
      split: option.splits)

lemma launch_monitor_reports:
  "filter is_report (snd (launch_monitor os cfg packageRoot dirStr cmdShow e tr))
     = filter is_report tr"
  by (simp add: launch_monitor_def GetAndLaunchMonitor_def Let_def
      LaunchMonitorInBackground_reports split: option.splits)

lemma launch_app_reports:
  "filter is_report (snd (launch_app os appConfig packageRoot dirStr args cmdShow e tr))
     = filter is_report tr"
  by (simp add: launch_app_def Let_def StartWithShellExecute_reports StartProcess_reports
      case_prod_beta)

lemma launch_start_script_reports:
  "launch_start_script os cfg packageRoot dirStr cmdShow tr = Inr (e, tr')
     \<Longrightarrow> filter is_report tr' = filter is_report tr"
  by (auto simp: launch_start_script_def Let_def split: prod.splits option.splits if_splits
      dest: RunScript_reports_result)

subsection \<open>The parts of launcher\_main\<close>



lemma launcher_main_unfold:
  assumes "PSFQueryCurrentAppLaunchConfig cfg = Some appConfig"
    and "dirStr = (case app_workingDirectory appConfig of Some d \<Rightarrow> d | None \<Rightarrow> [])"
    and "packageRoot = PSFQueryPackageRootPath cfg"
    and "launch_start_script os cfg packageRoot dirStr cmdShow [] = Inr (eS, trS)"
    and "launch_monitor os cfg packageRoot dirStr cmdShow eS trS = (eM, trM)"
    and "launch_app os appConfig packageRoot dirStr args cmdShow eM trM = (eA, trA)"
  shows "launcher_main os cfg args cmdShow
           = launch_end_script os cfg packageRoot dirStr cmdShow eA trA"
  using assms by (simp add: launcher_main_def Let_def)

subsection \<open>The scenarios, evaluated\<close>

lemma ex_cfg_simps:
  "PSFQueryCurrentAppLaunchConfig (ex_cfg exe pre mon post) = Some (ex_app exe)"
  "PSFQueryPackageRootPath (ex_cfg exe pre mon post) = ''/pkg''"
  "PSFQueryStartScriptInfo (ex_cfg exe pre mon post) = pre"
  "PSFQueryAppMonitorConfig (ex_cfg exe pre mon post) = mon"
  "PSFQueryEndScriptInfo (ex_cfg exe pre mon post) = post"
  "(case app_workingDirectory (ex_app exe) of Some d \<Rightarrow> d | None \<Rightarrow> []) = []"
  by (simp_all add: ex_cfg_def ex_app_def)

lemma ex_check_suffix:
  "check_suffix_if ''app.exe'' ''.exe''"
  "check_suffix_if ''APP.EXE'' ''.exe''"
  "\<not> check_suffix_if ''doc.pdf'' ''.exe''"
  by (simp_all add: check_suffix_if_def iwstring_eq_def towlower_def)

lemma ex_probe:
  "CheckIfPowershellIsInstalled (os_registry (ex_os install files create shell)) False
     = (NoError, install = 1)"
  by (simp add: CheckIfPowershellIsInstalled_def ex_os_def ERROR_SUCCESS_def)

lemma ex_start_none:
  "launch_start_script (ex_os install files create shell) (ex_cfg exe None mon post)
     packageRoot dirStr cmdShow tr = Inr (NoError, tr)"
  by (simp add: launch_start_script_def ex_probe ex_cfg_simps IsThereAnError_def NoError_def)

lemma ex_monitor_none:
  "launch_monitor os (ex_cfg exe pre None post) packageRoot dirStr cmdShow e tr = (e, tr)"
  by (simp add: launch_monitor_def ex_cfg_simps)

lemma ex_app_refused:
  "launch_app (ex_os install files ex_app_fails shell) (ex_app ''app.exe'') ''/pkg'' []
     ''extra'' 1 NoError tr = (ex_app_error, tr @ [ex_app_event])"
  by (simp add: launch_app_def ex_check_suffix StartProcess_def ex_os_def ex_app_fails_def
      ex_append_def ex_filename_def ex_app_error_def ex_app_event_def ex_app_def
      IsThereAnError_def NoError_def AddExeName_def Error_def Let_def)

lemma ex_app_started:
  "launch_app (ex_os install files (\<lambda>execInfo. Created 0 0) shell) (ex_app ''app.exe'') ''/pkg'' []
     ''extra'' 1 NoError tr
     = (AddExeName NoError ''app.exe'', tr @ [ex_app_event, EvWaitForSingleObject])"
  by (simp add: launch_app_def ex_check_suffix StartProcess_def ex_os_def
      ex_append_def ex_filename_def ex_app_event_def ex_app_def
      IsThereAnError_def NoError_def AddExeName_def WAIT_OBJECT_0_def Let_def)


lemma ex_script_missing:
  "RunScript (ex_os install (\<lambda>p. False) create shell) (ex_script venv) ''/pkg'' [] 1 tr
     = (Error ''The PowerShell file /pkg/go.ps1 can't be found'' 2, tr @ [EvExists ''/pkg/go.ps1''])"
  by (simp add: RunScript_def ex_os_def ex_script_def ex_append_def ERROR_FILE_NOT_FOUND_def
      Let_def)

lemma ex_script_runs:
  "RunScript (ex_os install (\<lambda>p. True) ex_app_fails shell) (ex_script None) ''/pkg'' [] 1 tr
     = (NoError, tr @ [EvExists ''/pkg/go.ps1'', ex_script_event False, EvWaitForSingleObject])"
  "RunScript (ex_os install (\<lambda>p. True) (\<lambda>execInfo. Created 0 0) shell) (ex_script None)
     ''/pkg'' [] 1 tr
     = (NoError, tr @ [EvExists ''/pkg/go.ps1'', ex_script_event False, EvWaitForSingleObject])"
  "RunScript (ex_os install (\<lambda>p. True) (\<lambda>execInfo. Created 0 0) shell) (ex_script (Some v))
     ''/pkg'' [] 1 tr
     = (NoError, tr @ [EvExists ''/pkg/go.ps1'', EvInitializeProcThreadAttributeList,
                       EvInitializeProcThreadAttributeList,
                       EvUpdateProcThreadAttribute
                         PROCESS_CREATION_DESKTOP_APP_BREAKAWAY_DISABLE_PROCESS_TREE,
                       ex_script_event True, EvWaitForSingleObject])"
  by (simp_all add: RunScript_def StartProcess_def ex_os_def ex_app_fails_def ex_append_def
      ex_script_def ex_script_event_def WAIT_OBJECT_0_def Let_def)


section \<open>C1: the ending script runs whatever the monitor and the application return\<close>




section \<open>C2: an earlier error takes precedence over the ending script's\<close>

text \<open>
  C2. When the run reaches the monitor, the error object left by the monitor and the
  application parts holds an error, and the ending script returns an error as well,
  then \<open>launcher_main\<close> reports once, at the end of the trace; what it prints is the
  earlier error object, with its message and its number (the executable tag is set
  to \<^verbatim>\<open>PowerShell.exe\<close> just before), and the exit code is that error's number.
\<close>

theorem earlier_error_takes_precedence:
  assumes "PSFQueryCurrentAppLaunchConfig cfg = Some appConfig"
    and "PSFQueryEndScriptInfo cfg = Some endScriptInformation"
    and "dirStr = (case app_workingDirectory appConfig of Some d \<Rightarrow> d | None \<Rightarrow> [])"
    and "packageRoot = PSFQueryPackageRootPath cfg"
    and "launch_start_script os cfg packageRoot dirStr cmdShow [] = Inr (eS, trS)"
    and "launch_monitor os cfg packageRoot dirStr cmdShow eS trS = (eM, trM)"
    and "launch_app os appConfig packageRoot dirStr args cmdShow eM trM = (eA, trA)"
    and "RunScript os endScriptInformation packageRoot dirStr cmdShow trA = (eE, trE)"
    and "IsThereAnError eA"
    and "IsThereAnError eE"
  shows "launcher_main os cfg args cmdShow =
           (GetErrorNumber eA, trE @ [EvReportError (Printed (AddExeName eA ''PowerShell.exe''))]) \<and>
         filter is_report (snd (launcher_main os cfg args cmdShow)) =
           [EvReportError (Printed (AddExeName eA ''PowerShell.exe''))] \<and>
         errorMessage (AddExeName eA ''PowerShell.exe'') = errorMessage eA \<and>
         errorNumber (AddExeName eA ''PowerShell.exe'') = errorNumber eA"
proof -
  have main: "launcher_main os cfg args cmdShow
                = launch_end_script os cfg packageRoot dirStr cmdShow eA trA"
    using assms(1,3-7) by (rule launcher_main_unfold)
  have res: "launcher_main os cfg args cmdShow =
           (GetErrorNumber eA, trE @ [EvReportError (Printed (AddExeName eA ''PowerShell.exe''))])"
    using assms(2,8,9)
    by (simp add: main launch_end_script_def Let_def IsThereAnError_def AddExeName_def
        GetErrorNumber_def)
  have "filter is_report trS = []"
    using launch_start_script_reports[OF assms(5)] by simp
  moreover have "filter is_report trM = filter is_report trS"
    using launch_monitor_reports[of os cfg packageRoot dirStr cmdShow eS trS] assms(6) by simp
  moreover have "filter is_report trA = filter is_report trM"
    using launch_app_reports[of os appConfig packageRoot dirStr args cmdShow eM trM] assms(7)
    by simp
  moreover have "filter is_report trE = filter is_report trA"
    using RunScript_reports[of os endScriptInformation packageRoot dirStr cmdShow trA] assms(8)
    by simp
  ultimately have "filter is_report trE = []" by simp
  then show ?thesis by (simp add: res AddExeName_def)
qed

text \<open>The application is refused with error 5 and the ending script is missing (error 2).\<close>

theorem earlier_error_takes_precedence_witness:
  "launcher_main (ex_os 1 (\<lambda>p. False) ex_app_fails (\<lambda>sh. None))
     (ex_cfg ''app.exe'' None None (Some (ex_script None))) ''extra'' 1
   = (5, [ex_app_event, EvExists ''/pkg/go.ps1'',
          EvReportError (Printed (ex_app_error\<lparr>errorExeName := ''PowerShell.exe''\<rparr>))]) \<and>
   filter is_report (snd (launcher_main (ex_os 1 (\<lambda>p. False) ex_app_fails (\<lambda>sh. None))
     (ex_cfg ''app.exe'' None None (Some (ex_script None))) ''extra'' 1))
   = [EvReportError (Printed (ex_app_error\<lparr>errorExeName := ''PowerShell.exe''\<rparr>))]"
proof -
  let ?os = "ex_os 1 (\<lambda>p. False) ex_app_fails (\<lambda>sh. None)"
  let ?cfg = "ex_cfg ''app.exe'' None None (Some (ex_script None))"
  let ?eE = "Error ''The PowerShell file /pkg/go.ps1 can't be found'' 2"
  have c1: "PSFQueryCurrentAppLaunchConfig ?cfg = Some (ex_app ''app.exe'')"
    and c2: "PSFQueryEndScriptInfo ?cfg = Some (ex_script None)"
    and c3: "[] = (case app_workingDirectory (ex_app ''app.exe'') of Some d \<Rightarrow> d | None \<Rightarrow> [])"
    and c4: "''/pkg'' = PSFQueryPackageRootPath ?cfg"
    by (simp_all add: ex_cfg_simps)
  have s: "launch_start_script ?os ?cfg ''/pkg'' [] 1 [] = Inr (NoError, [])"
    by (rule ex_start_none)
  have m: "launch_monitor ?os ?cfg ''/pkg'' [] 1 NoError [] = (NoError, [])"
    by (rule ex_monitor_none)
  have a: "launch_app ?os (ex_app ''app.exe'') ''/pkg'' [] ''extra'' 1 NoError []
             = (ex_app_error, [ex_app_event])"
    using ex_app_refused[of 1 "\<lambda>p. False" "\<lambda>sh. None" "[]"] by simp
  have e: "RunScript ?os (ex_script None) ''/pkg'' [] 1 [ex_app_event]
             = (?eE, [ex_app_event, EvExists ''/pkg/go.ps1''])"
    using ex_script_missing[of 1 ex_app_fails "\<lambda>sh. None" None "[ex_app_event]"] by simp
  have i1: "IsThereAnError ex_app_error" by (simp add: IsThereAnError_def ex_app_error_def)
  have i2: "IsThereAnError ?eE" by (simp add: IsThereAnError_def Error_def)
  show ?thesis
    using earlier_error_takes_precedence[OF c1 c2 c3 c4 s m a e i1 i2]
    by (simp add: GetErrorNumber_def AddExeName_def ex_app_error_def ex_app_event_def)
qed

section \<open>C3: the environment probe\<close>

text \<open>
  C3 (as amended). The probe answers \<open>(false, ok)\<close> when the key can be opened and the
  install marker can be read and holds a value other than one, zero included. It
  answers with an error exactly when the key cannot be opened or the marker cannot be
  queried (an absent marker is such a query); the error carries the failing status and
  the boolean is left as it was.
\<close>

theorem CheckIfPowershellIsInstalled_outcomes:
  "(RegCreateKeyExW reg = ERROR_SUCCESS \<and> fst (RegQueryValueExW reg) = ERROR_SUCCESS \<and>
      snd (RegQueryValueExW reg) \<noteq> 1
      \<longrightarrow> CheckIfPowershellIsInstalled reg b = (NoError, False)) \<and>
   (IsThereAnError (fst (CheckIfPowershellIsInstalled reg b)) \<longleftrightarrow>
      RegCreateKeyExW reg \<noteq> ERROR_SUCCESS \<or> fst (RegQueryValueExW reg) \<noteq> ERROR_SUCCESS) \<and>
   (RegCreateKeyExW reg = ERROR_SUCCESS \<and> fst (RegQueryValueExW reg) \<noteq> ERROR_SUCCESS
      \<longrightarrow> CheckIfPowershellIsInstalled reg b =
          (Error ''Error with querying the key to see if PowerShell is installed. ''
             (fst (RegQueryValueExW reg)), b))"
  by (auto simp: CheckIfPowershellIsInstalled_def Let_def IsThereAnError_def NoError_def
      Error_def split: prod.splits)

theorem CheckIfPowershellIsInstalled_outcomes_witness:
  "CheckIfPowershellIsInstalled \<lparr>RegCreateKeyExW = 0, RegQueryValueExW = (0, 0)\<rparr> True
     = (NoError, False) \<and>
   IsThereAnError (fst (CheckIfPowershellIsInstalled
     \<lparr>RegCreateKeyExW = 0, RegQueryValueExW = (2, 0)\<rparr> False)) \<and>
   CheckIfPowershellIsInstalled \<lparr>RegCreateKeyExW = 0, RegQueryValueExW = (2, 0)\<rparr> False
     = (Error ''Error with querying the key to see if PowerShell is installed. '' 2, False)"
  using CheckIfPowershellIsInstalled_outcomes
          [of "\<lparr>RegCreateKeyExW = 0, RegQueryValueExW = (0, 0)\<rparr>" True]
        CheckIfPowershellIsInstalled_outcomes
          [of "\<lparr>RegCreateKeyExW = 0, RegQueryValueExW = (2, 0)\<rparr>" False]
  by (simp add: ERROR_SUCCESS_def IsThereAnError_def Error_def)

text \<open>
  C3 as stated fails: with the key opened and the marker absent (the query answers
  \<^verbatim>\<open>ERROR_FILE_NOT_FOUND\<close>) the probe returns an error, not \<open>(false, ok)\<close>.
\<close>

theorem CheckIfPowershellIsInstalled_absent_marker_counterexample:
  "RegCreateKeyExW \<lparr>RegCreateKeyExW = 0, RegQueryValueExW = (2, 0)\<rparr> = ERROR_SUCCESS \<and>
   CheckIfPowershellIsInstalled \<lparr>RegCreateKeyExW = 0, RegQueryValueExW = (2, 0)\<rparr> False
     \<noteq> (NoError, False) \<and>
   IsThereAnError (fst (CheckIfPowershellIsInstalled
     \<lparr>RegCreateKeyExW = 0, RegQueryValueExW = (2, 0)\<rparr> False))"
  by (simp add: CheckIfPowershellIsInstalled_def ERROR_SUCCESS_def IsThereAnError_def
      Error_def NoError_def)

section \<open>C4: the attribute follows runInVirtualEnvironment\<close>




section \<open>C5: a failed elevated monitor\<close>

text \<open>
  Whatever the host, an elevated monitor whose shell activation fails returns the
  empty error object, and the only call made is the activation.
\<close>

lemma LaunchMonitorInBackground_elevated_failure:
  assumes "os_ShellExecuteEx os tr
             \<lparr>fMask = (if wait then SEE_MASK_NOCLOSEPROCESS
                       else or SEE_MASK_NOCLOSEPROCESS SEE_MASK_WAITFORINPUTIDLE),
              lpVerb = Some ''runas'',
              lpFile = [CHR 0x22] @ path_append os packageRoot executable @ [CHR 0x22],
              lpParameters = arguments, lpDirectory = None, nShow = 1\<rparr> = Some err"
  shows "LaunchMonitorInBackground os packageRoot executable arguments wait True cmdShow dirStr tr
           = (NoError,
              tr @ [EvShellExecuteEx
                      \<lparr>fMask = (if wait then SEE_MASK_NOCLOSEPROCESS
                                else or SEE_MASK_NOCLOSEPROCESS SEE_MASK_WAITFORINPUTIDLE),
                       lpVerb = Some ''runas'',
                       lpFile = [CHR 0x22] @ path_append os packageRoot executable @ [CHR 0x22],
                       lpParameters = arguments, lpDirectory = None, nShow = 1\<rparr>])"
  using assms by (simp add: LaunchMonitorInBackground_def Let_def)

text \<open>
  C5 does not hold of the code. The monitor of the spec's sixth scenario asks for
  elevation, and the shell refuses the activation with error 1223. The monitor stage
  returns no error: \<open>launcher_main\<close> goes on to start the application and the ending
  script, reports nothing, and exits with 0.
\<close>

theorem elevated_monitor_failure_is_dropped:
  "GetAndLaunchMonitor (ex_os 1 (\<lambda>p. True) (\<lambda>execInfo. Created 0 0) ex_runas_refused)
     ex_monitor ''/pkg'' 1 [] [EvCoInitializeEx]
     = (NoError, [EvCoInitializeEx, ex_monitor_event]) \<and>
   launcher_main (ex_os 1 (\<lambda>p. True) (\<lambda>execInfo. Created 0 0) ex_runas_refused)
     (ex_cfg ''app.exe'' None (Some ex_monitor) (Some (ex_script None))) ''extra'' 1
     = (0, [EvCoInitializeEx, ex_monitor_event, ex_app_event, EvWaitForSingleObject,
            EvExists ''/pkg/go.ps1'', ex_script_event False, EvWaitForSingleObject])"
proof -
  let ?os = "ex_os 1 (\<lambda>p. True) (\<lambda>execInfo. Created 0 0) ex_runas_refused"
  let ?cfg = "ex_cfg ''app.exe'' None (Some ex_monitor) (Some (ex_script None))"
  have g: "GetAndLaunchMonitor ?os ex_monitor ''/pkg'' 1 [] [EvCoInitializeEx]
             = (NoError, [EvCoInitializeEx, ex_monitor_event])"
    by (simp add: GetAndLaunchMonitor_def LaunchMonitorInBackground_def ex_os_def
        ex_monitor_def ex_runas_refused_def ex_append_def ex_monitor_event_def Let_def)
  have s: "launch_start_script ?os ?cfg ''/pkg'' [] 1 [] = Inr (NoError, [])"
    by (rule ex_start_none)
  have m: "launch_monitor ?os ?cfg ''/pkg'' [] 1 NoError []
             = (NoError, [EvCoInitializeEx, ex_monitor_event])"
    using g by (simp add: launch_monitor_def ex_cfg_simps)
  have a: "launch_app ?os (ex_app ''app.exe'') ''/pkg'' [] ''extra'' 1 NoError
             [EvCoInitializeEx, ex_monitor_event]
           = (AddExeName NoError ''app.exe'',
              [EvCoInitializeEx, ex_monitor_event, ex_app_event, EvWaitForSingleObject])"
    using ex_app_started[of 1 "\<lambda>p. True" ex_runas_refused "[EvCoInitializeEx, ex_monitor_event]"]
    by simp
  have e: "RunScript ?os (ex_script None) ''/pkg'' [] 1
             [EvCoInitializeEx, ex_monitor_event, ex_app_event, EvWaitForSingleObject]
           = (NoError, [EvCoInitializeEx, ex_monitor_event, ex_app_event, EvWaitForSingleObject,
                        EvExists ''/pkg/go.ps1'', ex_script_event False, EvWaitForSingleObject])"
    using ex_script_runs(2)[of 1 ex_runas_refused
        "[EvCoInitializeEx, ex_monitor_event, ex_app_event, EvWaitForSingleObject]"]
    by simp
  have "launcher_main ?os ?cfg ''extra'' 1
          = launch_end_script ?os ?cfg ''/pkg'' [] 1 (AddExeName NoError ''app.exe'')
              [EvCoInitializeEx, ex_monitor_event, ex_app_event, EvWaitForSingleObject]"
    using s m a by (intro launcher_main_unfold) (simp_all add: ex_cfg_simps)
  then show ?thesis using g e
    by (simp add: launch_end_script_def ex_cfg_simps AddExeName_def NoError_def
        IsThereAnError_def Let_def)
qed

section \<open>C6: a script without the interpreter\<close>

text \<open>
  With a starting script configured and the probe answering "not installed",
  \<open>launcher_main\<close> reports and returns \<^verbatim>\<open>E_APPLICATION_NOT_REGISTERED\<close> before anything
  is launched.
\<close>

lemma start_script_without_interpreter:
  assumes "PSFQueryCurrentAppLaunchConfig cfg = Some appConfig"
    and "PSFQueryStartScriptInfo cfg = Some startScriptInformation"
    and "CheckIfPowershellIsInstalled (os_registry os) False = (e, False)"
    and "\<not> IsThereAnError e"
  shows "launcher_main os cfg args cmdShow =
           (E_APPLICATION_NOT_REGISTERED,
            [EvReportError (Message
               ''PowerShell is not installed.  Please install PowerShell to run scripts in PSF'')])"
  using assms by (simp add: launcher_main_def launch_start_script_def Let_def)

text \<open>
  C6 does not hold of the code when only the ending script is configured: the
  install marker is 0, so the probe answers \<open>(false, ok)\<close>, yet the application and the
  ending script are both started, nothing is reported and the exit code is 0.
\<close>

theorem end_script_without_interpreter_is_launched:
  "CheckIfPowershellIsInstalled
     (os_registry (ex_os 0 (\<lambda>p. True) (\<lambda>execInfo. Created 0 0) (\<lambda>sh. None))) False
     = (NoError, False) \<and>
   launcher_main (ex_os 0 (\<lambda>p. True) (\<lambda>execInfo. Created 0 0) (\<lambda>sh. None))
     (ex_cfg ''app.exe'' None None (Some (ex_script None))) ''extra'' 1
     = (0, [ex_app_event, EvWaitForSingleObject,
            EvExists ''/pkg/go.ps1'', ex_script_event False, EvWaitForSingleObject]) \<and>
   fst (launcher_main (ex_os 0 (\<lambda>p. True) (\<lambda>execInfo. Created 0 0) (\<lambda>sh. None))
     (ex_cfg ''app.exe'' None None (Some (ex_script None))) ''extra'' 1)
     \<noteq> E_APPLICATION_NOT_REGISTERED"
proof -
  let ?os = "ex_os 0 (\<lambda>p. True) (\<lambda>execInfo. Created 0 0) (\<lambda>sh. None)"
  let ?cfg = "ex_cfg ''app.exe'' None None (Some (ex_script None))"
  have p: "CheckIfPowershellIsInstalled (os_registry ?os) False = (NoError, False)"
    by (simp add: ex_probe)
  have s: "launch_start_script ?os ?cfg ''/pkg'' [] 1 [] = Inr (NoError, [])"
    by (rule ex_start_none)
  have m: "launch_monitor ?os ?cfg ''/pkg'' [] 1 NoError [] = (NoError, [])"
    by (rule ex_monitor_none)
  have a: "launch_app ?os (ex_app ''app.exe'') ''/pkg'' [] ''extra'' 1 NoError []
           = (AddExeName NoError ''app.exe'', [ex_app_event, EvWaitForSingleObject])"
    using ex_app_started[of 0 "\<lambda>p. True" "\<lambda>sh. None" "[]"] by simp
  have e: "RunScript ?os (ex_script None) ''/pkg'' [] 1 [ex_app_event, EvWaitForSingleObject]
           = (NoError, [ex_app_event, EvWaitForSingleObject,
                        EvExists ''/pkg/go.ps1'', ex_script_event False, EvWaitForSingleObject])"
    using ex_script_runs(2)[of 0 "\<lambda>sh. None" "[ex_app_event, EvWaitForSingleObject]"] by simp
  have "launcher_main ?os ?cfg ''extra'' 1
          = launch_end_script ?os ?cfg ''/pkg'' [] 1 (AddExeName NoError ''app.exe'')
              [ex_app_event, EvWaitForSingleObject]"
    using s m a by (intro launcher_main_unfold) (simp_all add: ex_cfg_simps)
  then show ?thesis using p e
    by (simp add: launch_end_script_def ex_cfg_simps AddExeName_def NoError_def
        IsThereAnError_def E_APPLICATION_NOT_REGISTERED_def Let_def)
qed

section \<open>C7: a missing script file\<close>

text \<open>
  C7 (as amended). When the script file \<^verbatim>\<open>packageRoot / workingDirectory / scriptPath\<close>
  does not exist, \<open>RunScript\<close> returns the error
  \<^verbatim>\<open>The PowerShell file <path> can't be found\<close> with \<^verbatim>\<open>ERROR_FILE_NOT_FOUND\<close>, and the
  only call it made is the existence check: no process creation is attempted.
\<close>

theorem RunScript_missing_file:
  assumes "\<not> os_exists os tr
             (path_append os (path_append os packageRoot dirStr) (json_scriptPath scriptInformation))"
  shows "RunScript os scriptInformation packageRoot dirStr cmdShow tr =
           (Error (''The PowerShell file '' @
                     path_append os (path_append os packageRoot dirStr)
                       (json_scriptPath scriptInformation) @ '' can't be found'')
              ERROR_FILE_NOT_FOUND,
            tr @ [EvExists (path_append os (path_append os packageRoot dirStr)
                              (json_scriptPath scriptInformation))])"
  using assms by (simp add: RunScript_def Let_def)

theorem RunScript_missing_file_witness:
  "RunScript (ex_os 1 (\<lambda>p. False) (\<lambda>execInfo. Created 0 0) (\<lambda>sh. None)) (ex_script None)
     ''/pkg'' [] 1 []
   = (Error ''The PowerShell file /pkg/go.ps1 can't be found'' ERROR_FILE_NOT_FOUND,
      [EvExists ''/pkg/go.ps1''])"
  using RunScript_missing_file
          [of "ex_os 1 (\<lambda>p. False) (\<lambda>execInfo. Created 0 0) (\<lambda>sh. None)" "[]" "''/pkg''" "[]"
              "ex_script None" 1]
  by (simp add: ex_os_def ex_script_def ex_append_def)

text \<open>
  C7 as stated fails on the message: in the spec's third scenario the message is not
  \<^verbatim>\<open>The script file /pkg/go.ps1 can't be found\<close>.
\<close>

theorem RunScript_missing_file_message_counterexample:
  "errorMessage (fst (RunScript (ex_os 1 (\<lambda>p. False) (\<lambda>execInfo. Created 0 0) (\<lambda>sh. None))
                        (ex_script None) ''/pkg'' [] 1 []))
     \<noteq> ''The script file /pkg/go.ps1 can't be found''"
  by (simp add: RunScript_def Let_def ex_os_def ex_script_def ex_append_def Error_def)

section \<open>C8: the suffix decides how the application is started\<close>

text \<open>
  C8. Whenever the application part runs (no error so far): the test
  \<open>check_suffix_if\<close> holds exactly when the executable, folded to lower case, ends
  with \<^verbatim>\<open>.exe\<close>. If it holds, the part creates a process whose application name is
  \<^verbatim>\<open>packageRoot / executable\<close> (and at most waits for it). If it does not, the part
  makes one shell activation, without a verb, of the file \<^verbatim>\<open>packageRoot / executable\<close>
  with the configured arguments, and creates no process.
\<close>

theorem launch_app_suffix_dispatch:
  assumes "\<not> IsThereAnError error"
  shows "(check_suffix_if (app_executable appConfig) ''.exe''
            \<longleftrightarrow> suffix ''.exe'' (map towlower (app_executable appConfig))) \<and>
         (check_suffix_if (app_executable appConfig) ''.exe'' \<longrightarrow>
            (\<exists>rest.
               snd (launch_app os appConfig packageRoot dirStr args cmdShow error tr) =
                 tr @ [EvCreateProcess
                         \<lparr>ApplicationName =
                            Some (path_append os packageRoot (app_executable appConfig)),
                          CommandLine =
                            [CHR 0x22] @
                            path_filename os (path_append os packageRoot (app_executable appConfig)) @
                            [CHR 0x22] @ '' '' @
                            (case app_arguments appConfig of Some a \<Rightarrow> a | None \<Rightarrow> []) @
                            '' '' @ args,
                          CurrentDirectory = Some (path_append os packageRoot dirStr)\<rparr>
                         (word_of_int cmdShow) False] @ rest \<and>
               (rest = [] \<or> rest = [EvWaitForSingleObject]))) \<and>
         (\<not> check_suffix_if (app_executable appConfig) ''.exe'' \<longrightarrow>
            (\<exists>shex.
               snd (launch_app os appConfig packageRoot dirStr args cmdShow error tr) =
                 tr @ [EvShellExecuteEx shex] \<and>
               lpVerb shex = None \<and>
               lpFile shex = path_append os packageRoot (app_executable appConfig) \<and>
               lpParameters shex =
                 (case app_arguments appConfig of Some a \<Rightarrow> a | None \<Rightarrow> [])) \<and>
            filter is_create_process
              (snd (launch_app os appConfig packageRoot dirStr args cmdShow error tr)) =
              filter is_create_process tr)"
proof (intro conjI impI)
  show "check_suffix_if (app_executable appConfig) ''.exe''
            \<longleftrightarrow> suffix ''.exe'' (map towlower (app_executable appConfig))"
    by (simp only: check_suffix_if_suffix towlower_exe)
next
  assume "check_suffix_if (app_executable appConfig) ''.exe''"
  then show "\<exists>rest.
               snd (launch_app os appConfig packageRoot dirStr args cmdShow error tr) =
                 tr @ [EvCreateProcess
                         \<lparr>ApplicationName =
                            Some (path_append os packageRoot (app_executable appConfig)),
                          CommandLine =
                            [CHR 0x22] @
                            path_filename os (path_append os packageRoot (app_executable appConfig)) @
                            [CHR 0x22] @ '' '' @
                            (case app_arguments appConfig of Some a \<Rightarrow> a | None \<Rightarrow> []) @
                            '' '' @ args,
                          CurrentDirectory = Some (path_append os packageRoot dirStr)\<rparr>
                         (word_of_int cmdShow) False] @ rest \<and>
               (rest = [] \<or> rest = [EvWaitForSingleObject])"
    using assms
    by (simp add: launch_app_def StartProcess_def Let_def case_prod_beta
        split: create_result.splits)
next
  assume n: "\<not> check_suffix_if (app_executable appConfig) ''.exe''"
  then show "\<exists>shex.
               snd (launch_app os appConfig packageRoot dirStr args cmdShow error tr) =
                 tr @ [EvShellExecuteEx shex] \<and>
               lpVerb shex = None \<and>
               lpFile shex = path_append os packageRoot (app_executable appConfig) \<and>
               lpParameters shex =
                 (case app_arguments appConfig of Some a \<Rightarrow> a | None \<Rightarrow> [])"
    using assms
    by (simp add: launch_app_def StartWithShellExecute_def Let_def split: option.splits)
  from n show "filter is_create_process
              (snd (launch_app os appConfig packageRoot dirStr args cmdShow error tr)) =
              filter is_create_process tr"
    using assms
    by (simp add: launch_app_def StartWithShellExecute_def Let_def split: option.splits)
qed

text \<open>The spec's first two scenarios, and an upper-case suffix.\<close>

theorem launch_app_suffix_dispatch_witness:
  "suffix ''.exe'' (map towlower ''APP.EXE'') \<and>
   (\<exists>rest. snd (launch_app (ex_os 1 (\<lambda>p. True) (\<lambda>execInfo. Created 0 0) (\<lambda>sh. None))
                   (ex_app ''app.exe'') ''/pkg'' [] ''extra'' 1 NoError [])
      = [ex_app_event] @ rest \<and> (rest = [] \<or> rest = [EvWaitForSingleObject])) \<and>
   (\<exists>shex. snd (launch_app (ex_os 1 (\<lambda>p. True) (\<lambda>execInfo. Created 0 0) (\<lambda>sh. None))
                   (ex_app ''doc.pdf'') ''/pkg'' [] ''extra'' 1 NoError [])
      = [EvShellExecuteEx shex] \<and>
      lpVerb shex = None \<and> lpFile shex = ''/pkg/doc.pdf'' \<and> lpParameters shex = ''--mode=fast'') \<and>
   filter is_create_process
     (snd (launch_app (ex_os 1 (\<lambda>p. True) (\<lambda>execInfo. Created 0 0) (\<lambda>sh. None))
             (ex_app ''doc.pdf'') ''/pkg'' [] ''extra'' 1 NoError [])) = []"
proof -
  have n: "\<not> IsThereAnError NoError" by (simp add: IsThereAnError_def NoError_def)
  show ?thesis
    using launch_app_suffix_dispatch
            [OF n, of "ex_app ''APP.EXE''"
               "ex_os 1 (\<lambda>p. True) (\<lambda>execInfo. Created 0 0) (\<lambda>sh. None)" "''/pkg''" "[]"
               "''extra''" 1 "[]"]
          launch_app_suffix_dispatch
            [OF n, of "ex_app ''app.exe''"
               "ex_os 1 (\<lambda>p. True) (\<lambda>execInfo. Created 0 0) (\<lambda>sh. None)" "''/pkg''" "[]"
               "''extra''" 1 "[]"]
          launch_app_suffix_dispatch
            [OF n, of "ex_app ''doc.pdf''"
               "ex_os 1 (\<lambda>p. True) (\<lambda>execInfo. Created 0 0) (\<lambda>sh. None)" "''/pkg''" "[]"
               "''extra''" 1 "[]"]
          ex_check_suffix
    by (simp add: ex_app_def ex_os_def ex_append_def ex_filename_def ex_app_event_def)
qed

section \<open>C9: the program named by a failed launch\<close>

text \<open>
  C9. When \<^verbatim>\<open>CreateProcessW\<close> fails, the error \<open>StartProcess\<close> returns carries the last
  error and the message \<^verbatim>\<open>ERROR: Failed to create a process for <name> \<close>, where the
  name is the application name if there is one, and otherwise the program name the
  spec describes (\<open>spec_program_name\<close>): the text between the first pair of quotes
  of a command line that starts with a quote, else the text up to the first space.
  The command line is shorter than \<open>npos\<close>, as every string in memory is.
\<close>

theorem StartProcess_failure_names_program:
  assumes "os_CreateProcessW os
             (if runInVirtualEnvironment
              then tr @ [EvInitializeProcThreadAttributeList, EvInitializeProcThreadAttributeList,
                         EvUpdateProcThreadAttribute
                           PROCESS_CREATION_DESKTOP_APP_BREAKAWAY_DISABLE_PROCESS_TREE]
              else tr) execInfo = CreateFailed err"
    and "length (CommandLine execInfo) < npos"
  shows "fst (StartProcess os execInfo cmdShow runInVirtualEnvironment tr) =
           Error (''ERROR: Failed to create a process for '' @
                    (case ApplicationName execInfo of
                       Some name \<Rightarrow> name
                     | None \<Rightarrow> spec_program_name (CommandLine execInfo)) @ '' '') err"
proof (cases "ApplicationName execInfo")
  case (Some name)
  then show ?thesis using assms(1) by (simp add: StartProcess_def)
next
  case None
  show ?thesis
  proof (cases "CommandLine execInfo")
    case Nil
    then show ?thesis using assms(1) None
      by (simp add: StartProcess_def spec_program_name_def substr_def)
  next
    case (Cons c rest)
    show ?thesis
    proof (cases "c = CHR 0x22")
      case True
      have "substr (CHR 0x22 # rest) (Suc 0)
              (size_t_minus (wfind (CHR 0x22 # rest) (CHR 0x22) (Suc 0)) (Suc 0))
            = takeWhile (\<lambda>x. x \<noteq> CHR 0x22) rest"
        using substr_quoted[of "CHR 0x22" rest "CHR 0x22"] assms(2) Cons by simp
      then show ?thesis using assms(1) None Cons True
        by (simp add: StartProcess_def spec_program_name_def)
    next
      case False
      have "substr (c # rest) 0 (wfind (c # rest) (CHR '' '') 0)
            = takeWhile (\<lambda>x. x \<noteq> CHR '' '') (c # rest)"
        using substr_first_token[of "c # rest" "CHR '' ''"] assms(2) Cons by simp
      then show ?thesis using assms(1) None Cons False
        by (simp add: StartProcess_def spec_program_name_def)
    qed
  qed
qed

text \<open>The two command lines of the spec, and a launch with an application name.\<close>

theorem StartProcess_failure_names_program_witness:
  "fst (StartProcess (ex_os 1 (\<lambda>p. True) (\<lambda>execInfo. CreateFailed 2) (\<lambda>sh. None))
          \<lparr>ApplicationName = None, CommandLine = CHR 0x22 # ''a b'' @ CHR 0x22 # '' x y'',
           CurrentDirectory = None\<rparr> 1 False [])
     = Error ''ERROR: Failed to create a process for a b '' 2 \<and>
   fst (StartProcess (ex_os 1 (\<lambda>p. True) (\<lambda>execInfo. CreateFailed 2) (\<lambda>sh. None))
          \<lparr>ApplicationName = None, CommandLine = ''ab x y'', CurrentDirectory = None\<rparr> 1 False [])
     = Error ''ERROR: Failed to create a process for ab '' 2 \<and>
   fst (StartProcess (ex_os 1 (\<lambda>p. True) (\<lambda>execInfo. CreateFailed 2) (\<lambda>sh. None))
          \<lparr>ApplicationName = Some ''/pkg/app.exe'', CommandLine = ''ab x y'',
           CurrentDirectory = None\<rparr> 1 True [])
     = Error ''ERROR: Failed to create a process for /pkg/app.exe '' 2"
  using StartProcess_failure_names_program
          [of "ex_os 1 (\<lambda>p. True) (\<lambda>execInfo. CreateFailed 2) (\<lambda>sh. None)" False "[]"
              "\<lparr>ApplicationName = None, CommandLine = CHR 0x22 # ''a b'' @ CHR 0x22 # '' x y'',
                CurrentDirectory = None\<rparr>" 2 1]
        StartProcess_failure_names_program
          [of "ex_os 1 (\<lambda>p. True) (\<lambda>execInfo. CreateFailed 2) (\<lambda>sh. None)" False "[]"
              "\<lparr>ApplicationName = None, CommandLine = ''ab x y'', CurrentDirectory = None\<rparr>" 2 1]
        StartProcess_failure_names_program
          [of "ex_os 1 (\<lambda>p. True) (\<lambda>execInfo. CreateFailed 2) (\<lambda>sh. None)" True "[]"
              "\<lparr>ApplicationName = Some ''/pkg/app.exe'', CommandLine = ''ab x y'',
                CurrentDirectory = None\<rparr>" 2 1]
  by (simp add: ex_os_def spec_program_name_def npos_def)

section \<open>C10: runInVirtualEnvironment is true when the key is there\<close>

text \<open>
  C10. In every script launch (the script file exists) \<open>RunScript\<close> is \<open>StartProcess\<close>
  on the PowerShell command line with the flag \<^verbatim>\<open>runInVirtualEnvironment\<close> true exactly
  when the key is present in the script's configuration: any string value makes it
  true, \<^verbatim>\<open>false\<close> and \<^verbatim>\<open>0\<close> included, and only an absent key makes it false.
\<close>

theorem RunScript_runInVirtualEnvironment_is_key_presence:
  assumes "os_exists os tr
             (path_append os (path_append os packageRoot dirStr) (json_scriptPath scriptInformation))"
  shows "RunScript os scriptInformation packageRoot dirStr cmdShow tr =
           StartProcess os
             \<lparr>ApplicationName = None,
              CommandLine = ''Powershell.exe -file '' @ json_scriptPath scriptInformation @ '' '' @
                (case json_scriptArguments scriptInformation of Some a \<Rightarrow> a | None \<Rightarrow> []),
              CurrentDirectory = Some (path_append os packageRoot dirStr)\<rparr>
             cmdShow
             (json_runInVirtualEnvironment scriptInformation \<noteq> None)
             (tr @ [EvExists (path_append os (path_append os packageRoot dirStr)
                                (json_scriptPath scriptInformation))])"
  using assms by (simp add: RunScript_def Let_def split: option.splits)

theorem RunScript_runInVirtualEnvironment_is_key_presence_witness:
  "RunScript (ex_os 1 (\<lambda>p. True) (\<lambda>execInfo. Created 0 0) (\<lambda>sh. None))
     (ex_script (Some ''false'')) ''/pkg'' [] 1 []
   = StartProcess (ex_os 1 (\<lambda>p. True) (\<lambda>execInfo. Created 0 0) (\<lambda>sh. None))
       \<lparr>ApplicationName = None, CommandLine = ''Powershell.exe -file go.ps1 '',
        CurrentDirectory = Some ''/pkg/''\<rparr> 1 True [EvExists ''/pkg/go.ps1''] \<and>
   RunScript (ex_os 1 (\<lambda>p. True) (\<lambda>execInfo. Created 0 0) (\<lambda>sh. None))
     (ex_script (Some ''0'')) ''/pkg'' [] 1 []
   = StartProcess (ex_os 1 (\<lambda>p. True) (\<lambda>execInfo. Created 0 0) (\<lambda>sh. None))
       \<lparr>ApplicationName = None, CommandLine = ''Powershell.exe -file go.ps1 '',
        CurrentDirectory = Some ''/pkg/''\<rparr> 1 True [EvExists ''/pkg/go.ps1''] \<and>
   RunScript (ex_os 1 (\<lambda>p. True) (\<lambda>execInfo. Created 0 0) (\<lambda>sh. None))
     (ex_script None) ''/pkg'' [] 1 []
   = StartProcess (ex_os 1 (\<lambda>p. True) (\<lambda>execInfo. Created 0 0) (\<lambda>sh. None))
       \<lparr>ApplicationName = None, CommandLine = ''Powershell.exe -file go.ps1 '',
        CurrentDirectory = Some ''/pkg/''\<rparr> 1 False [EvExists ''/pkg/go.ps1'']"
proof -
  let ?os = "ex_os 1 (\<lambda>p. True) (\<lambda>execInfo. Created 0 0) (\<lambda>sh. None)"
  have x: "os_exists ?os [] (path_append ?os (path_append ?os ''/pkg'' [])
                               (json_scriptPath (ex_script v)))" for v
    by (simp add: ex_os_def)
  have p: "path_append ?os ''/pkg'' [] = ''/pkg/''"
    "path_append ?os ''/pkg/'' ''go.ps1'' = ''/pkg/go.ps1''"
    by (simp_all add: ex_os_def ex_append_def)
  show ?thesis
    using RunScript_runInVirtualEnvironment_is_key_presence
            [OF x, of "Some ''false''" 1]
          RunScript_runInVirtualEnvironment_is_key_presence
            [OF x, of "Some ''0''" 1]
          RunScript_runInVirtualEnvironment_is_key_presence
            [OF x, of None 1]
    by (simp add: p ex_script_def)
qed

end
